theory Spec2Isabelle
  imports Complex_Main "HOL-Library.Sublist"
begin

section \<open>Values, errors and the environment\<close>

text \<open>
  A Record is whatever \<open>json.loads\<close> can return: the Python values \<open>None\<close>, \<open>bool\<close>,
  \<open>int\<close>, \<open>float\<close>, \<open>str\<close>, \<open>list\<close> and \<open>dict\<close> with string keys. A dict is an association
  list, looked up with \<open>map_of\<close>.
\<close>

datatype json =
    JNull
  | JBool bool
  | JInt int
  | JFloat real
  | JStr string
  | JArr "json list"
  | JObj "(string \<times> json) list"

text \<open>The exceptions the code can raise, as values.\<close>

datatype error =
    KeyError
  | IndexError
  | TypeError
  | AttributeError
  | JSONDecodeError
  | StoreUnreachable

text \<open>
  Metadata as the vector store holds it: a flat dict of strings. A stored fragment is its
  identifier, its document text and its metadata; the collection is the list of stored
  fragments in storage order.
\<close>

type_synonym metadata = "(string \<times> string) list"

type_synonym fragment = "string \<times> string \<times> metadata"

type_synonym collection = "fragment list"

text \<open>The calls made to the vector store, as they appear in the call log.\<close>

datatype call =
    CGetAll
  | CGet "string list"
  | CQuery string int
  | CAdd "string list"

text \<open>
  What \<open>collection.query\<close> returns: \<open>ids\<close> and \<open>distances\<close>, each a list with one inner list
  per query text. An absent or \<open>None\<close> \<open>distances\<close> entry is the empty list (all three are
  falsy in the code's test).
\<close>

record query_result =
  qr_ids :: "string list list"
  qr_distances :: "real list list"

text \<open>
  The parts of the Python runtime and of the external services that the repository calls
  but does not define:
  \<^item> \<open>py_repr\<close>: \<open>str()\<close> of a number, list or dict;
  \<^item> \<open>py_strip\<close>: \<open>str.strip()\<close>;
  \<^item> \<open>json_dumps\<close>, \<open>json_loads\<close>: the \<open>json\<close> module (\<open>None\<close> is \<open>JSONDecodeError\<close>);
  \<^item> \<open>knn\<close>: the store's embedding and nearest-neighbour search, for a query text and
    \<open>n_results\<close>;
  \<^item> \<open>down\<close>: the store calls on which the service fails.
\<close>

record env =
  py_repr :: "json \<Rightarrow> string"
  py_strip :: "string \<Rightarrow> string"
  json_dumps :: "json \<Rightarrow> string"
  json_loads :: "string \<Rightarrow> json option"
  knn :: "collection \<Rightarrow> string \<Rightarrow> int \<Rightarrow> query_result"
  down :: "call \<Rightarrow> bool"

definition ebind :: "error + 'a \<Rightarrow> ('a \<Rightarrow> error + 'b) \<Rightarrow> error + 'b" where
  "ebind m f = (case m of Inl e \<Rightarrow> Inl e | Inr x \<Rightarrow> f x)"

subsection \<open>Python operations on values\<close>

text \<open>\<open>v.get(k, d)\<close>: only a dict has \<open>get\<close>.\<close>

fun dict_get :: "json \<Rightarrow> string \<Rightarrow> json \<Rightarrow> error + json" where
  "dict_get (JObj kvs) k d = Inr (case map_of kvs k of None \<Rightarrow> d | Some v \<Rightarrow> v)"
| "dict_get _ k d = Inl AttributeError"

text \<open>\<open>v[k]\<close> for a string key \<open>k\<close>.\<close>

fun subscript :: "json \<Rightarrow> string \<Rightarrow> error + json" where
  "subscript (JObj kvs) k = (case map_of kvs k of None \<Rightarrow> Inl KeyError | Some v \<Rightarrow> Inr v)"
| "subscript _ k = Inl TypeError"

text \<open>\<open>v[0]\<close>. A dict of string keys has no key \<open>0\<close>.\<close>

fun subscript0 :: "json \<Rightarrow> error + json" where
  "subscript0 (JArr []) = Inl IndexError"
| "subscript0 (JArr (x # xs)) = Inr x"
| "subscript0 (JStr []) = Inl IndexError"
| "subscript0 (JStr (c # cs)) = Inr (JStr [c])"
| "subscript0 (JObj kvs) = Inl KeyError"
| "subscript0 _ = Inl TypeError"

text \<open>The items a \<open>for\<close> loop over \<open>v\<close> visits.\<close>

fun iter_items :: "json \<Rightarrow> error + json list" where
  "iter_items (JArr xs) = Inr xs"
| "iter_items (JObj kvs) = Inr (map (\<lambda>kv. JStr (fst kv)) kvs)"
| "iter_items (JStr s) = Inr (map (\<lambda>c. JStr [c]) s)"
| "iter_items _ = Inl TypeError"

text \<open>\<open>str(v)\<close>, also what an f-string substitutes for \<open>{v}\<close>.\<close>

definition py_str :: "env \<Rightarrow> json \<Rightarrow> string" where
  "py_str e v =
     (case v of
        JStr s \<Rightarrow> s
      | JNull \<Rightarrow> ''None''
      | JBool b \<Rightarrow> (if b then ''True'' else ''False'')
      | _ \<Rightarrow> py_repr e v)"

text \<open>\<open>sep.join(xs)\<close>.\<close>

fun join_str :: "string \<Rightarrow> string list \<Rightarrow> string" where
  "join_str sep [] = []"
| "join_str sep [x] = x"
| "join_str sep (x # y # ys) = x @ sep @ join_str sep (y # ys)"

text \<open>\<open>metadata.get(k, d)\<close> on stored metadata.\<close>

definition meta_get :: "metadata \<Rightarrow> string \<Rightarrow> string \<Rightarrow> string" where
  "meta_get m k d = (case map_of m k of None \<Rightarrow> d | Some v \<Rightarrow> v)"

section \<open>business_card_processor.py\<close>

text \<open>
  \<open>process_llm_response\<close>: the response text is \<open>None\<close> when there is no response or no
  text. The two wrappers are tried in the source's order.
\<close>

definition unwrap :: "env \<Rightarrow> string \<Rightarrow> string \<Rightarrow> string" where
  "unwrap e wrapper cleaned_data =
     (if prefix wrapper cleaned_data \<and> suffix ''```'' cleaned_data
      then py_strip e (take (length cleaned_data - 3 - length wrapper)
                         (drop (length wrapper) cleaned_data))
      else cleaned_data)"

definition process_llm_response :: "env \<Rightarrow> string option \<Rightarrow> json" where
  "process_llm_response e response_text =
     (case response_text of
        None \<Rightarrow> JObj []
      | Some t \<Rightarrow>
          if t = [] then JObj []
          else (case json_loads e (unwrap e ''```'' (unwrap e ''```json'' (py_strip e t))) of
                  None \<Rightarrow> JObj []
                | Some v \<Rightarrow> v))"

text \<open>The card data \<open>extract_from_image\<close> returns, from the image hash, its base64 text
  and the processed response.\<close>

definition card_data_of :: "string \<Rightarrow> string \<Rightarrow> json \<Rightarrow> json" where
  "card_data_of image_hash image_base64 extracted_data =
     JObj [(''image_metadata'', JObj [(''hash'', JStr image_hash), (''base64'', JStr image_base64)]),
           (''extracted_info'', extracted_data)]"

section \<open>search_engine.py\<close>

subsection \<open>process_business_card\<close>

text \<open>\<open>c.get(key, [{}])[0].get('value', '')\<close>.\<close>

definition first_value :: "json \<Rightarrow> string \<Rightarrow> error + json" where
  "first_value c key =
     ebind (dict_get c key (JArr [JObj []])) (\<lambda>l.
     ebind (subscript0 l) (\<lambda>x. dict_get x ''value'' (JStr [])))"

text \<open>\<open>digital.get('website', {}).get('value', '')\<close>.\<close>

definition website_value :: "json \<Rightarrow> error + json" where
  "website_value digital =
     ebind (dict_get digital ''website'' (JObj [])) (\<lambda>w. dict_get w ''value'' (JStr []))"

text \<open>\<open>v[k]['value']\<close>.\<close>

definition value_of :: "json \<Rightarrow> string \<Rightarrow> error + json" where
  "value_of v k = ebind (subscript v k) (\<lambda>x. subscript x ''value'')"

text \<open>The list comprehension over the social media entries.\<close>

fun social_entries :: "env \<Rightarrow> json list \<Rightarrow> error + string list" where
  "social_entries e [] = Inr []"
| "social_entries e (sm # rest) =
     (case subscript sm ''platform'' of
        Inl err \<Rightarrow> Inl err
      | Inr p \<Rightarrow>
          (case subscript sm ''handle'' of
             Inl err \<Rightarrow> Inl err
           | Inr h \<Rightarrow>
               (case social_entries e rest of
                  Inl err \<Rightarrow> Inl err
                | Inr xs \<Rightarrow> Inr ((py_str e p @ '':'' @ py_str e h) # xs))))"

record processed =
  documents :: "string list"
  metadata :: metadata
  image_base64 :: json

definition process_business_card :: "env \<Rightarrow> json \<Rightarrow> error + processed" where
  "process_business_card e card_json =
     ebind (dict_get card_json ''extracted_info'' (JObj [])) (\<lambda>extracted.
     ebind (dict_get extracted ''primary_info'' (JObj [])) (\<lambda>primary.
     ebind (dict_get extracted ''contact_info'' (JObj [])) (\<lambda>contact.
     ebind (dict_get extracted ''digital_presence'' (JObj [])) (\<lambda>digital.
     ebind (dict_get extracted ''contextual_summary'' (JObj [])) (\<lambda>contextual.
     ebind (value_of primary ''name'') (\<lambda>name0.
     ebind (value_of primary ''job_title'') (\<lambda>job0.
     ebind (dict_get contextual ''industry_inference'' (JStr [])) (\<lambda>industry0.
     ebind (first_value contact ''addresses'') (\<lambda>address0.
     ebind (first_value contact ''emails'') (\<lambda>email1.
     ebind (first_value contact ''addresses'') (\<lambda>address1.
     ebind (website_value digital) (\<lambda>website1.
     ebind (dict_get digital ''social_media'' (JArr [])) (\<lambda>social.
     ebind (iter_items social) (\<lambda>sms.
     ebind (social_entries e sms) (\<lambda>pairs.
     ebind (dict_get contextual ''professional_summary'' (JStr [])) (\<lambda>summary3.
     ebind (dict_get contextual ''industry_inference'' (JStr [])) (\<lambda>industry3.
     ebind (dict_get contextual ''seniority_estimate'' (JStr [])) (\<lambda>seniority3.
     ebind (value_of primary ''name'') (\<lambda>m_name.
     ebind (value_of primary ''job_title'') (\<lambda>m_job.
     ebind (subscript primary ''company'') (\<lambda>company.
     ebind (dict_get company ''text_value'' (JStr [])) (\<lambda>m_company.
     ebind (first_value contact ''emails'') (\<lambda>m_email.
     ebind (first_value contact ''addresses'') (\<lambda>m_location.
     ebind (website_value digital) (\<lambda>m_website.
     ebind (dict_get contextual ''industry_inference'' (JStr [])) (\<lambda>m_industry.
     ebind (dict_get contextual ''seniority_estimate'' (JStr [])) (\<lambda>m_seniority.
     ebind (subscript card_json ''image_metadata'') (\<lambda>im.
     ebind (subscript im ''hash'') (\<lambda>m_hash.
     ebind (subscript card_json ''image_metadata'') (\<lambda>im2.
     ebind (subscript im2 ''base64'') (\<lambda>b64.
     Inr \<lparr>documents =
            [py_str e name0 @ '' is a '' @ py_str e job0 @ '' in '' @ py_str e industry0
               @ ''based in '' @ py_str e address0 @ ''.'',
             ''Contact: '' @ py_str e email1 @ '' | Location: '' @ py_str e address1
               @ '' | Website: '' @ py_str e website1,
             ''Social media: '' @ join_str '', '' pairs,
             ''professional_summary: '' @ py_str e summary3 @ '' expertise in ''
               @ py_str e industry3 @ '' and '' @ py_str e seniority3],
          metadata =
            [(''name'', py_str e m_name),
             (''job_title'', py_str e m_job),
             (''company'', py_str e m_company),
             (''email'', py_str e m_email),
             (''location'', py_str e m_location),
             (''website'', py_str e m_website),
             (''industry'', py_str e m_industry),
             (''seniority'', py_str e m_seniority),
             (''image_hash'', py_str e m_hash),
             (''source_json'', json_dumps e card_json)],
          image_base64 = b64\<rparr>)))))))))))))))))))))))))))))))"

subsection \<open>The vector store\<close>

text \<open>
  The vector store service behind \<open>self.collection\<close> (a chromadb collection) is external:
  the repository calls it but does not define it. \<open>get\<close> with identifiers returns the
  metadata of those that exist, \<open>get\<close> without arguments returns every stored
  identifier, and \<open>add\<close> writes each fragment under its identifier unless a fragment is
  already stored under it, in which case the stored fragment is kept. The code calls
  \<open>add\<close> only, never \<open>upsert\<close>, \<open>update\<close> or \<open>delete\<close>. A call on which the service fails
  (\<open>down\<close>) raises instead.
\<close>

definition coll_get :: "collection \<Rightarrow> string list \<Rightarrow> metadata list" where
  "coll_get coll ids = map (\<lambda>f. snd (snd f)) (filter (\<lambda>f. fst f \<in> set ids) coll)"

definition coll_ids :: "collection \<Rightarrow> string list" where
  "coll_ids coll = map fst coll"

definition coll_add :: "collection \<Rightarrow> fragment list \<Rightarrow> collection" where
  "coll_add coll frags = coll @ filter (\<lambda>f. fst f \<notin> set (map fst coll)) frags"

subsection \<open>add_business_card and get_card_by_id\<close>

definition fragment_ids :: "string \<Rightarrow> string list" where
  "fragment_ids card_id = [card_id @ ''_0'', card_id @ ''_1'', card_id @ ''_2'', card_id @ ''_3'']"

text \<open>The metadata built by \<open>process_business_card\<close> always has the keys \<open>name\<close> and
  \<open>image_hash\<close>, so the two subscripts in the identifier's f-string cannot fail.\<close>

definition add_business_card ::
  "env \<Rightarrow> collection \<Rightarrow> json \<Rightarrow> call list \<times> (error + string \<times> collection)" where
  "add_business_card e coll card_json =
     (case process_business_card e card_json of
        Inl err \<Rightarrow> ([], Inl err)
      | Inr p \<Rightarrow>
          let card_id = meta_get (metadata p) ''name'' [] @ ''-'' @ meta_get (metadata p) ''image_hash'' [];
              ids = fragment_ids card_id
          in if down e (CAdd ids) then ([CAdd ids], Inl StoreUnreachable)
             else ([CAdd ids],
                   Inr (card_id,
                        coll_add coll (zip ids (zip (documents p)
                                                  (replicate (length (documents p)) (metadata p)))))))"

record card_data =
  cd_metadata :: metadata
  cd_original_json :: json
  cd_image_base64 :: string

definition empty_card :: card_data where
  "empty_card = \<lparr>cd_metadata = [], cd_original_json = JStr ''{}'', cd_image_base64 = []\<rparr>"

definition get_card_by_id :: "env \<Rightarrow> collection \<Rightarrow> string \<Rightarrow> call list \<times> (error + card_data)" where
  "get_card_by_id e coll card_id =
     (let ids = fragment_ids card_id
      in if down e (CGet ids) then ([CGet ids], Inl StoreUnreachable)
         else ([CGet ids],
               (case coll_get coll ids of
                  [] \<Rightarrow> Inr empty_card
                | m # ms \<Rightarrow>
                    (case json_loads e (meta_get m ''source_json'' ''{}'') of
                       None \<Rightarrow> Inl JSONDecodeError
                     | Some original_json \<Rightarrow>
                         Inr \<lparr>cd_metadata = m,
                              cd_original_json = original_json,
                              cd_image_base64 = meta_get m ''image_base64'' []\<rparr>))))"

subsection \<open>search_cards\<close>

text \<open>The f-string of \<open>process_query\<close>, with its line breaks and indentation.\<close>

definition process_query :: "string \<Rightarrow> string" where
  "process_query query =
     [CHR 0x0A] @ ''            Find business cards matching the following criteria:''
     @ [CHR 0x0A] @ ''            '' @ query
     @ [CHR 0x0A] @ ''            Consider job titles, names, locations, and professional context.''
     @ [CHR 0x0A] @ ''            ''"

text \<open>\<open>s.rsplit("_", 1)[0]\<close>: the part before the last underscore, or all of \<open>s\<close> when it
  has none.\<close>

definition rsplit_head :: "string \<Rightarrow> string" where
  "rsplit_head s =
     (if CHR ''_'' \<in> set s
      then rev (tl (dropWhile (\<lambda>c. c \<noteq> CHR ''_'') (rev s)))
      else s)"

text \<open>
  The loop runs over \<open>i\<close> in \<open>range(len(results["ids"][0]))\<close> and reads the identifier at
  \<open>i\<close> and the distance at \<open>i\<close>, which is \<open>1.0\<close> when \<open>distances\<close> is missing or too short.
  \<open>raw_hits\<close> is the list of these pairs in loop order.
\<close>

definition distance_at :: "real list list \<Rightarrow> nat \<Rightarrow> real" where
  "distance_at distances i =
     (case distances of
        [] \<Rightarrow> 1
      | d0 # ds \<Rightarrow> if length d0 > i then d0 ! i else 1)"

definition raw_hits :: "string list \<Rightarrow> real list list \<Rightarrow> (string \<times> real) list" where
  "raw_hits ids0 distances = map (\<lambda>i. (ids0 ! i, distance_at distances i)) [0..<length ids0]"

record search_result =
  sr_metadata :: metadata
  sr_distance :: real
  sr_extracted_info :: json

text \<open>
  The loop body and the loop. \<open>get_card_by_id\<close> is called outside the inner \<open>try\<close>, so its
  exceptions leave the loop; inside the \<open>try\<close> only \<open>JSONDecodeError\<close> is caught. The value
  \<open>get_card_by_id\<close> returns is always a non-empty dict with the key \<open>metadata\<close>, so the
  test on it always passes.
\<close>

fun aggregate ::
  "env \<Rightarrow> collection \<Rightarrow> int \<Rightarrow> string set \<Rightarrow> search_result list \<Rightarrow> (string \<times> real) list
     \<Rightarrow> call list \<times> (error + search_result list)" where
  "aggregate e coll num_results seen_cards formatted_results [] = ([], Inr formatted_results)"
| "aggregate e coll num_results seen_cards formatted_results ((fid, distance) # hits) =
     (let card_id = rsplit_head fid
      in if card_id \<in> seen_cards
         then aggregate e coll num_results seen_cards formatted_results hits
         else
           (case get_card_by_id e coll card_id of
              (log1, Inl err) \<Rightarrow> (log1, Inl err)
            | (log1, Inr cdata) \<Rightarrow>
                (case json_loads e (meta_get (cd_metadata cdata) ''source_json'' ''{}'') of
                   None \<Rightarrow>
                     (case aggregate e coll num_results (insert card_id seen_cards)
                             formatted_results hits of
                        (log2, r) \<Rightarrow> (log1 @ log2, r))
                 | Some extracted_info \<Rightarrow>
                     (case dict_get extracted_info ''extracted_info'' (JObj []) of
                        Inl err \<Rightarrow> (log1, Inl err)
                      | Inr info \<Rightarrow>
                          let formatted_results' =
                                formatted_results @
                                  [\<lparr>sr_metadata = cd_metadata cdata,
                                    sr_distance = distance,
                                    sr_extracted_info = info\<rparr>]
                          in if int (length formatted_results') \<ge> num_results
                             then (log1, Inr formatted_results')
                             else
                               (case aggregate e coll num_results (insert card_id seen_cards)
                                       formatted_results' hits of
                                  (log2, r) \<Rightarrow> (log1 @ log2, r))))))"

definition search_body ::
  "env \<Rightarrow> collection \<Rightarrow> string \<Rightarrow> int \<Rightarrow> call list \<times> (error + search_result list)" where
  "search_body e coll query num_results =
     (let processed_query = process_query query
      in if down e CGetAll then ([CGetAll], Inl StoreUnreachable)
         else
           let all_ids = coll_ids coll
           in if all_ids = [] then ([CGetAll], Inr [])
              else
                let n_results = min (num_results * 4) (int (length all_ids));
                    q = CQuery processed_query n_results
                in if down e q then ([CGetAll, q], Inl StoreUnreachable)
                   else
                     let results = knn e coll processed_query n_results
                     in (case qr_ids results of
                           [] \<Rightarrow> ([CGetAll, q], Inr [])
                         | ids0 # rest \<Rightarrow>
                             (case aggregate e coll num_results {} []
                                     (raw_hits ids0 (qr_distances results)) of
                                (lg, r) \<Rightarrow> ([CGetAll, q] @ lg, r))))"

text \<open>The outer \<open>except Exception\<close> turns every exception into the empty list.\<close>

definition results_or_empty :: "error + search_result list \<Rightarrow> search_result list" where
  "results_or_empty r = (case r of Inl err \<Rightarrow> [] | Inr rs \<Rightarrow> rs)"

definition search_cards ::
  "env \<Rightarrow> collection \<Rightarrow> string \<Rightarrow> int \<Rightarrow> call list \<times> search_result list" where
  "search_cards e coll query num_results =
     (case search_body e coll query num_results of
        (lg, r) \<Rightarrow> (lg, results_or_empty r))"

section \<open>Notions used in the statements\<close>

text \<open>The card identity the loop derives from a raw hit.\<close>

definition hit_card :: "string \<times> real \<Rightarrow> string" where
  "hit_card h = rsplit_head (fst h)"

text \<open>Result \<open>r\<close> is the one emitted for hit \<open>h\<close>: it carries the hit's distance and the
  metadata that \<open>get_card_by_id\<close> returns for the hit's card.\<close>

definition result_of_hit :: "env \<Rightarrow> collection \<Rightarrow> search_result \<Rightarrow> string \<times> real \<Rightarrow> bool" where
  "result_of_hit e coll r h =
     (case snd (get_card_by_id e coll (hit_card h)) of
        Inl err \<Rightarrow> False
      | Inr cd \<Rightarrow> sr_metadata r = cd_metadata cd \<and> sr_distance r = snd h)"

definition is_query :: "call \<Rightarrow> bool" where
  "is_query c = (case c of CQuery q k \<Rightarrow> True | _ \<Rightarrow> False)"

text \<open>The distances of the raw hits for the identifiers \<open>ids0\<close>: those the store returned
  for the first query text, and 1.0 for each hit it returned none for.\<close>

definition hit_distances :: "string list \<Rightarrow> real list list \<Rightarrow> real list" where
  "hit_distances ids0 distances =
     (case distances of
        [] \<Rightarrow> replicate (length ids0) 1
      | ds # rest \<Rightarrow> take (length ids0) ds @ replicate (length ids0 - length ds) 1)"

section \<open>Example data\<close>

definition ada_record :: json where
  "ada_record =
     JObj [(''image_metadata'', JObj [(''hash'', JStr ''abc123''), (''base64'', JStr ''aGk='')]),
           (''extracted_info'',
            JObj [(''primary_info'',
                   JObj [(''name'', JObj [(''value'', JStr ''Ada Lovelace''), (''confidence'', JStr ''high'')]),
                         (''job_title'', JObj [(''value'', JStr ''Engineer''), (''confidence'', JStr ''high'')]),
                         (''company'', JObj [(''text_value'', JStr ''Analytical Engines''),
                                             (''logo_identified'', JBool False)])]),
                  (''contact_info'',
                   JObj [(''emails'', JArr [JObj [(''value'', JStr ''ada@example.com'')]]),
                         (''phones'', JArr []),
                         (''addresses'', JArr [JObj [(''value'', JStr ''London'')]])]),
                  (''digital_presence'',
                   JObj [(''website'', JObj [(''value'', JStr ''example.com'')]),
                         (''social_media'',
                          JArr [JObj [(''platform'', JStr ''linkedin''), (''handle'', JStr ''ada'')]])]),
                  (''contextual_summary'',
                   JObj [(''professional_summary'', JStr ''Ada builds engines.''),
                         (''industry_inference'', JStr ''Software''),
                         (''seniority_estimate'', JStr ''Senior'')])])]"

text \<open>
  A stand-in environment for the examples: a codec that knows the empty dict and the
  record above (every other text is malformed), a nearest-neighbour search that returns
  the first \<open>k\<close> stored fragments at distances 0.1, 0.2, ..., and a store that never fails.
\<close>

definition toy_env :: env where
  "toy_env =
     \<lparr>py_repr = (\<lambda>v. ''?''),
      py_strip = (\<lambda>s. s),
      json_dumps = (\<lambda>v. if v = JObj [] then ''{}'' else ''ada''),
      json_loads = (\<lambda>s. if s = ''{}'' then Some (JObj [])
                         else if s = ''ada'' then Some ada_record else None),
      knn = (\<lambda>coll q k.
               \<lparr>qr_ids = [take (nat k) (map fst coll)],
                qr_distances = [map (\<lambda>i. real (Suc i) / 10) [0..<min (nat k) (length coll)]]\<rparr>),
      down = (\<lambda>c. False)\<rparr>"

definition meta_x :: metadata where
  "meta_x = [(''name'', ''X''), (''source_json'', ''{}'')]"

definition meta_y :: metadata where
  "meta_y = [(''name'', ''Y''), (''source_json'', ''{}'')]"

definition meta_bad :: metadata where
  "meta_bad = [(''name'', ''B''), (''source_json'', ''{not json'')]"

text \<open>Card X complete, card Y complete.\<close>

definition xy_coll :: collection where
  "xy_coll =
     [(''X_0'', ''x0'', meta_x), (''X_1'', ''x1'', meta_x), (''X_2'', ''x2'', meta_x),
      (''X_3'', ''x3'', meta_x),
      (''Y_0'', ''y0'', meta_y), (''Y_1'', ''y1'', meta_y), (''Y_2'', ''y2'', meta_y),
      (''Y_3'', ''y3'', meta_y)]"

text \<open>Card X with two of its four fragments only.\<close>

definition partial_coll :: collection where
  "partial_coll = [(''X_0'', ''x0'', meta_x), (''X_2'', ''x2'', meta_x)]"

text \<open>One fragment each of card X, of a card B whose stored record is malformed, and of
  card Y, in this order.\<close>

definition bad_coll :: collection where
  "bad_coll = [(''X_0'', ''x0'', meta_x), (''B_0'', ''b0'', meta_bad), (''Y_0'', ''y0'', meta_y)]"

text \<open>The metadata and the four stored fragments of the record above.\<close>

definition ada_metadata :: metadata where
  "ada_metadata =
     [(''name'', ''Ada Lovelace''), (''job_title'', ''Engineer''),
      (''company'', ''Analytical Engines''), (''email'', ''ada@example.com''),
      (''location'', ''London''), (''website'', ''example.com''), (''industry'', ''Software''),
      (''seniority'', ''Senior''), (''image_hash'', ''abc123''), (''source_json'', ''ada'')]"

definition ada_stored :: collection where
  "ada_stored =
     [(''Ada Lovelace-abc123_0'', ''Ada Lovelace is a Engineer in Softwarebased in London.'',
       ada_metadata),
      (''Ada Lovelace-abc123_1'',
       ''Contact: ada@example.com | Location: London | Website: example.com'', ada_metadata),
      (''Ada Lovelace-abc123_2'', ''Social media: linkedin:ada'', ada_metadata),
      (''Ada Lovelace-abc123_3'',
       ''professional_summary: Ada builds engines. expertise in Software and Senior'',
       ada_metadata)]"

text \<open>A record with name, job title and company, and the given contact section.\<close>

definition contact_record :: "json \<Rightarrow> json" where
  "contact_record contact =
     card_data_of ''abc123'' ''aGk=''
       (JObj [(''primary_info'',
               JObj [(''name'', JObj [(''value'', JStr ''Ada Lovelace'')]),
                     (''job_title'', JObj [(''value'', JStr ''Engineer'')]),
                     (''company'', JObj [])]),
              (''contact_info'', contact)])"

text \<open>Twelve stored fragments: cards X, Y and Z, complete.\<close>

definition xyz_coll :: collection where
  "xyz_coll =
     xy_coll @
     [(''Z_0'', ''z0'', meta_y), (''Z_1'', ''z1'', meta_y), (''Z_2'', ''z2'', meta_y),
      (''Z_3'', ''z3'', meta_y)]"

text \<open>The environment of the examples with a store that fails on every call.\<close>

definition down_env :: env where
  "down_env = toy_env\<lparr>down := (\<lambda>c. True)\<rparr>"

text \<open>The environment of the examples with a nearest-neighbour search that returns the
  given identifiers and distances.\<close>

definition fixed_env :: "string list \<Rightarrow> real list \<Rightarrow> env" where
  "fixed_env ids ds = toy_env\<lparr>knn := (\<lambda>coll q k. \<lparr>qr_ids = [ids], qr_distances = [ds]\<rparr>)\<rparr>"

text \<open>
  An earlier, sparser extraction of the same image: \<open>contact_record (JObj [])\<close> has the
  name and the image hash of the record above, hence the same card identity. The
  environment below has a codec for these two records; \<open>first_stored\<close> is what adding the
  earlier extraction to an empty store leaves there.
\<close>

definition reextract_env :: env where
  "reextract_env =
     toy_env\<lparr>json_dumps := (\<lambda>v. if v = ada_record then ''ada'' else ''first''),
             json_loads := (\<lambda>s. if s = ''ada'' then Some ada_record
                                else if s = ''first'' then Some (contact_record (JObj []))
                                else None)\<rparr>"

definition first_metadata :: metadata where
  "first_metadata =
     [(''name'', ''Ada Lovelace''), (''job_title'', ''Engineer''), (''company'', []),
      (''email'', []), (''location'', []), (''website'', []), (''industry'', []),
      (''seniority'', []), (''image_hash'', ''abc123''), (''source_json'', ''first'')]"

definition first_stored :: collection where
  "first_stored =
     [(''Ada Lovelace-abc123_0'', ''Ada Lovelace is a Engineer in based in .'', first_metadata),
      (''Ada Lovelace-abc123_1'', ''Contact:  | Location:  | Website: '', first_metadata),
      (''Ada Lovelace-abc123_2'', ''Social media: '', first_metadata),
      (''Ada Lovelace-abc123_3'', ''professional_summary:  expertise in  and '', first_metadata)]"

section \<open>Auxiliary facts\<close>

lemma ebind_Inr: "ebind m f = Inr y \<Longrightarrow> \<exists>x. m = Inr x \<and> f x = Inr y"
  by (cases m) (simp_all add: ebind_def)

lemma process_business_card_shape:
  assumes "process_business_card e r = Inr p"
  shows "length (documents p) = 4"
    and "map fst (metadata p) = [''name'', ''job_title'', ''company'', ''email'', ''location'',
           ''website'', ''industry'', ''seniority'', ''image_hash'', ''source_json'']"
    and "meta_get (metadata p) ''source_json'' d = json_dumps e r"
  using assms unfolding process_business_card_def
  by (auto dest!: ebind_Inr simp: meta_get_def)

lemma coll_get_after_add:
  assumes "map fst frags = ids" and "\<forall>fid\<in>set ids. fid \<notin> set (coll_ids coll)"
  shows "coll_get (coll_add coll frags) ids = map (\<lambda>f. snd (snd f)) frags"
proof -
  have "fst f \<notin> set (map fst coll)" if "f \<in> set frags" for f
  proof -
    from that assms(1) have "fst f \<in> set ids" by force
    with assms(2) show ?thesis by (simp add: coll_ids_def)
  qed
  then have new: "filter (\<lambda>f. fst f \<notin> set (map fst coll)) frags = frags"
    by (simp add: filter_id_conv)
  have "fst f \<notin> set ids" if "f \<in> set coll" for f
  proof
    assume "fst f \<in> set ids"
    with assms(2) have "fst f \<notin> set (coll_ids coll)" by blast
    with that show False by (simp add: coll_ids_def)
  qed
  then have old: "filter (\<lambda>f. fst f \<in> set ids) coll = []"
    by (simp add: filter_empty_conv)
  from assms(1) have mine: "filter (\<lambda>f. fst f \<in> set ids) frags = frags"
    by (force simp: filter_id_conv)
  show ?thesis
    unfolding coll_get_def coll_add_def new filter_append old mine by simp
qed

lemma raw_hits_zip:
  "raw_hits ids0 distances = zip ids0 (hit_distances ids0 distances)"
proof (rule nth_equalityI)
  show "length (raw_hits ids0 distances) = length (zip ids0 (hit_distances ids0 distances))"
    by (cases distances) (auto simp: raw_hits_def hit_distances_def)
next
  fix i
  assume "i < length (raw_hits ids0 distances)"
  then have i: "i < length ids0" by (simp add: raw_hits_def)
  have "length (hit_distances ids0 distances) = length ids0"
    by (cases distances) (auto simp: hit_distances_def)
  with i have "zip ids0 (hit_distances ids0 distances) ! i =
                 (ids0 ! i, hit_distances ids0 distances ! i)" by simp
  moreover from i have "hit_distances ids0 distances ! i = distance_at distances i"
    by (cases distances) (auto simp: hit_distances_def distance_at_def nth_append)
  ultimately show "raw_hits ids0 distances ! i = zip ids0 (hit_distances ids0 distances) ! i"
    using i by (simp add: raw_hits_def)
qed

lemma hit_distances_full:
  "length ds = length ids0 \<Longrightarrow> hit_distances ids0 (ds # rest) = ds"
  by (simp add: hit_distances_def)

lemma rsplit_head_slot: "d \<noteq> CHR ''_'' \<Longrightarrow> rsplit_head (c @ [CHR ''_'', d]) = c"
  by (simp add: rsplit_head_def)

lemma get_card_by_id_log: "fst (get_card_by_id e coll c) = [CGet (fragment_ids c)]"
  by (simp add: get_card_by_id_def Let_def)

subsection \<open>One step of the loop\<close>

lemma aggregate_get_error:
  "rsplit_head fid \<notin> seen \<Longrightarrow> snd (get_card_by_id e coll (rsplit_head fid)) = Inl err \<Longrightarrow>
   snd (aggregate e coll n seen acc ((fid, d) # hits)) = Inl err"
  by (cases "get_card_by_id e coll (rsplit_head fid)") simp

lemma aggregate_skip:
  "rsplit_head fid \<notin> seen \<Longrightarrow> snd (get_card_by_id e coll (rsplit_head fid)) = Inr cd \<Longrightarrow>
   json_loads e (meta_get (cd_metadata cd) ''source_json'' ''{}'') = None \<Longrightarrow>
   snd (aggregate e coll n seen acc ((fid, d) # hits)) =
   snd (aggregate e coll n (insert (rsplit_head fid) seen) acc hits)"
  by (cases "get_card_by_id e coll (rsplit_head fid)") (simp split: prod.splits)

lemma aggregate_attr_error:
  "rsplit_head fid \<notin> seen \<Longrightarrow> snd (get_card_by_id e coll (rsplit_head fid)) = Inr cd \<Longrightarrow>
   json_loads e (meta_get (cd_metadata cd) ''source_json'' ''{}'') = Some j \<Longrightarrow>
   dict_get j ''extracted_info'' (JObj []) = Inl err \<Longrightarrow>
   snd (aggregate e coll n seen acc ((fid, d) # hits)) = Inl err"
  by (cases "get_card_by_id e coll (rsplit_head fid)") simp

lemma aggregate_emit:
  "rsplit_head fid \<notin> seen \<Longrightarrow> snd (get_card_by_id e coll (rsplit_head fid)) = Inr cd \<Longrightarrow>
   json_loads e (meta_get (cd_metadata cd) ''source_json'' ''{}'') = Some j \<Longrightarrow>
   dict_get j ''extracted_info'' (JObj []) = Inr info \<Longrightarrow>
   snd (aggregate e coll n seen acc ((fid, d) # hits)) =
   (let acc' = acc @ [\<lparr>sr_metadata = cd_metadata cd, sr_distance = d, sr_extracted_info = info\<rparr>]
    in if n \<le> int (length acc') then Inr acc'
       else snd (aggregate e coll n (insert (rsplit_head fid) seen) acc' hits))"
  by (cases "get_card_by_id e coll (rsplit_head fid)") (simp split: prod.splits add: Let_def)

subsection \<open>The loop's invariant\<close>

text \<open>
  With \<open>seen\<close> the cards met so far and \<open>acc\<close> the results so far, the loop appends one
  result per hit of a list \<open>es\<close>: a subsequence of the remaining hits, with pairwise
  different cards, none of them met before, each the first remaining hit of its card.
\<close>

lemma aggregate_inv:
  "snd (aggregate e coll n seen acc hits) = Inr rs \<Longrightarrow>
   \<exists>es new. rs = acc @ new \<and> list_all2 (result_of_hit e coll) new es \<and> subseq es hits
     \<and> distinct (map hit_card es) \<and> (\<forall>h\<in>set es. hit_card h \<notin> seen)
     \<and> (\<forall>h\<in>set es. find (\<lambda>h'. hit_card h' = hit_card h) hits = Some h)"
proof (induction hits arbitrary: seen acc rs)
  case Nil
  then show ?case by simp
next
  case (Cons h hits)
  obtain fid d where h: "h = (fid, d)" by (cases h)
  let ?c = "rsplit_head fid"
  have hc: "hit_card h = ?c" by (simp add: h hit_card_def)
  show ?case
  proof (cases "?c \<in> seen")
    case True
    with Cons.prems h have "snd (aggregate e coll n seen acc hits) = Inr rs" by simp
    from Cons.IH[OF this] obtain es new where
      *: "rs = acc @ new" "list_all2 (result_of_hit e coll) new es" "subseq es hits"
         "distinct (map hit_card es)" "\<forall>x\<in>set es. hit_card x \<notin> seen"
         "\<forall>x\<in>set es. find (\<lambda>h'. hit_card h' = hit_card x) hits = Some x" by blast
    have "\<forall>x\<in>set es. find (\<lambda>h'. hit_card h' = hit_card x) (h # hits) = Some x"
      using * True hc by auto
    with * show ?thesis
      by (intro exI[of _ es] exI[of _ new]) (simp add: list_emb_Cons)
  next
    case False
    show ?thesis
    proof (cases "snd (get_card_by_id e coll ?c)")
      case (Inl err)
      from Cons.prems show ?thesis
        unfolding h aggregate_get_error[OF False Inl] by simp
    next
      case (Inr cd)
      show ?thesis
      proof (cases "json_loads e (meta_get (cd_metadata cd) ''source_json'' ''{}'')")
        case None
        from Cons.prems
        have "snd (aggregate e coll n (insert ?c seen) acc hits) = Inr rs"
          unfolding h aggregate_skip[OF False Inr None] .
        from Cons.IH[OF this] obtain es new where
          *: "rs = acc @ new" "list_all2 (result_of_hit e coll) new es" "subseq es hits"
             "distinct (map hit_card es)" "\<forall>x\<in>set es. hit_card x \<notin> insert ?c seen"
             "\<forall>x\<in>set es. find (\<lambda>h'. hit_card h' = hit_card x) hits = Some x" by blast
        have "\<forall>x\<in>set es. find (\<lambda>h'. hit_card h' = hit_card x) (h # hits) = Some x"
          using * hc by auto
        with * show ?thesis
          by (intro exI[of _ es] exI[of _ new]) (simp add: list_emb_Cons)
      next
        case (Some j)
        show ?thesis
        proof (cases "dict_get j ''extracted_info'' (JObj [])")
          case (Inl err)
          from Cons.prems show ?thesis
            unfolding h aggregate_attr_error[OF False Inr Some Inl] by simp
        next
          case info: (Inr info)
          let ?r = "\<lparr>sr_metadata = cd_metadata cd, sr_distance = d, sr_extracted_info = info\<rparr>"
          have rh: "result_of_hit e coll ?r h"
            using Inr by (simp add: result_of_hit_def hit_card_def h)
          have step: "snd (aggregate e coll n seen acc (h # hits)) =
              (if n \<le> int (length (acc @ [?r])) then Inr (acc @ [?r])
               else snd (aggregate e coll n (insert ?c seen) (acc @ [?r]) hits))"
            unfolding h aggregate_emit[OF False Inr Some info] Let_def ..
          show ?thesis
          proof (cases "n \<le> int (length (acc @ [?r]))")
            case True
            with step Cons.prems have "rs = acc @ [?r]" by simp
            with rh False hc show ?thesis
              by (intro exI[of _ "[h]"] exI[of _ "[?r]"]) simp
          next
            case nb: False
            with step Cons.prems
            have "snd (aggregate e coll n (insert ?c seen) (acc @ [?r]) hits) = Inr rs" by simp
            from Cons.IH[OF this] obtain es new where
              *: "rs = (acc @ [?r]) @ new" "list_all2 (result_of_hit e coll) new es" "subseq es hits"
                 "distinct (map hit_card es)" "\<forall>x\<in>set es. hit_card x \<notin> insert ?c seen"
                 "\<forall>x\<in>set es. find (\<lambda>h'. hit_card h' = hit_card x) hits = Some x" by blast
            have f: "\<forall>x\<in>set (h # es). find (\<lambda>h'. hit_card h' = hit_card x) (h # hits) = Some x"
              using * hc by auto
            have dist: "distinct (map hit_card (h # es))"
              using * hc by auto
            have ns: "\<forall>x\<in>set (h # es). hit_card x \<notin> seen"
              using * hc False by auto
            from * rh f dist ns show ?thesis
              by (intro exI[of _ "h # es"] exI[of _ "?r # new"]) simp
          qed
        qed
      qed
    qed
  qed
qed

lemma sorted_map_subseq:
  assumes "subseq xs ys" "sorted (map f ys)"
  shows "sorted (map f xs)"
proof -
  from assms(1) have "subseq (map f xs) (map f ys)" by (rule subseq_map)
  then obtain N where "map f xs = nths (map f ys) N" by (auto simp: subseq_conv_nths)
  with assms(2) show ?thesis by (simp add: sorted_nths)
qed

lemma list_all2_distance:
  "list_all2 (result_of_hit e coll) rs es \<Longrightarrow> map sr_distance rs = map snd es"
  by (induction rule: list_all2_induct) (auto simp: result_of_hit_def split: sum.splits)

text \<open>What the loop emits, for any list of hits.\<close>

lemma aggregate_results:
  "\<exists>es. list_all2 (result_of_hit e coll)
            (results_or_empty (snd (aggregate e coll n {} [] hits))) es
      \<and> subseq es hits
      \<and> distinct (map hit_card es)
      \<and> (\<forall>h\<in>set es. find (\<lambda>h'. hit_card h' = hit_card h) hits = Some h)
      \<and> (sorted (map snd hits) \<longrightarrow>
           sorted (map sr_distance (results_or_empty (snd (aggregate e coll n {} [] hits)))))"
proof (cases "snd (aggregate e coll n {} [] hits)")
  case (Inl err)
  then show ?thesis by (intro exI[of _ "[]"]) (simp add: results_or_empty_def)
next
  case (Inr rs)
  from aggregate_inv[OF this] obtain es where
    *: "list_all2 (result_of_hit e coll) rs es" "subseq es hits" "distinct (map hit_card es)"
       "\<forall>h\<in>set es. find (\<lambda>h'. hit_card h' = hit_card h) hits = Some h" by auto
  have "sorted (map snd hits) \<Longrightarrow> sorted (map sr_distance rs)"
    using sorted_map_subseq[OF *(2)] list_all2_distance[OF *(1)] by simp
  with * Inr show ?thesis
    by (intro exI[of _ es]) (simp add: results_or_empty_def)
qed

text \<open>\<open>search_cards\<close> returns nothing, or what the loop emits for the hits of the query.\<close>

lemma search_cards_results:
  "snd (search_cards e coll q n) = []
   \<or> (\<exists>ids0 rest.
         qr_ids (knn e coll (process_query q) (min (n * 4) (int (length coll)))) = ids0 # rest
         \<and> snd (search_cards e coll q n) =
             results_or_empty (snd (aggregate e coll n {} []
               (raw_hits ids0
                  (qr_distances (knn e coll (process_query q) (min (n * 4) (int (length coll)))))))))"
  by (auto simp: search_cards_def search_body_def results_or_empty_def coll_ids_def Let_def
        split: list.splits prod.splits sum.splits)

subsection \<open>The loop's calls to the store\<close>

lemma aggregate_log_gets:
  "aggregate e coll n seen acc hits = (lg, res) \<Longrightarrow> c \<in> set lg \<Longrightarrow> \<not> is_query c"
proof (induction hits arbitrary: seen acc lg res)
  case Nil
  then show ?case by simp
next
  case (Cons h hits)
  obtain fid d where h: "h = (fid, d)" by (cases h)
  obtain r where g: "get_card_by_id e coll (rsplit_head fid) = ([CGet (fragment_ids (rsplit_head fid))], r)"
    using get_card_by_id_log[of e coll "rsplit_head fid"]
    by (cases "get_card_by_id e coll (rsplit_head fid)") simp
  have nq: "\<not> is_query (CGet (fragment_ids (rsplit_head fid)))" by (simp add: is_query_def)
  from Cons.prems show ?case
    unfolding h
    by (auto simp: g nq Let_def split: if_splits sum.splits option.splits prod.splits dest: Cons.IH)
qed

lemma aggregate_down:
  "aggregate e coll n seen acc hits = (lg, res) \<Longrightarrow> c \<in> set lg \<Longrightarrow> down e c \<Longrightarrow>
   res = Inl StoreUnreachable"
proof (induction hits arbitrary: seen acc lg res)
  case Nil
  then show ?case by simp
next
  case (Cons h hits)
  obtain fid d where h: "h = (fid, d)" by (cases h)
  let ?g = "CGet (fragment_ids (rsplit_head fid))"
  show ?case
  proof (cases "down e ?g")
    case True
    then have "get_card_by_id e coll (rsplit_head fid) = ([?g], Inl StoreUnreachable)"
      by (simp add: get_card_by_id_def Let_def)
    with Cons show ?thesis unfolding h
      by (auto simp: Let_def split: if_splits)
  next
    case False
    obtain r where g: "get_card_by_id e coll (rsplit_head fid) = ([?g], r)"
      using get_card_by_id_log[of e coll "rsplit_head fid"]
      by (cases "get_card_by_id e coll (rsplit_head fid)") simp
    from Cons.prems False show ?thesis
      unfolding h
      by (auto simp: g Let_def split: if_splits sum.splits option.splits prod.splits dest: Cons.IH)
  qed
qed

lemmas example_defs = toy_env_def xy_coll_def meta_x_def meta_y_def

lemmas store_defs =
  get_card_by_id_def fragment_ids_def coll_get_def coll_ids_def meta_get_def rsplit_head_def

section \<open>The claims\<close>

text \<open>
  C1. The claim: for every Record, also one with absent or empty nested keys,
  \<open>process_business_card\<close> returns four fragments and metadata with all ten keys, and never
  raises. The code raises. When the extractor has no usable response,
  \<open>process_llm_response\<close> returns the empty dict, \<open>extract_from_image\<close> wraps it into a
  card, and \<open>process_business_card\<close> raises \<open>KeyError\<close> on it at \<open>primary['name']\<close>. A
  present but empty address list raises \<open>IndexError\<close>, while an absent one is covered by
  the default.
\<close>

theorem process_business_card_raises_on_missing_fields:
  "process_business_card e (card_data_of h b (process_llm_response e None)) = Inl KeyError
   \<and> process_business_card e (contact_record (JObj [(''addresses'', JArr [])])) = Inl IndexError
   \<and> (\<exists>p. process_business_card e (contact_record (JObj [])) = Inr p)"
  by (simp add: process_business_card_def card_data_of_def process_llm_response_def
        contact_record_def ebind_def value_of_def first_value_def website_value_def)

text \<open>
  C2. For every store, query and desired count: let the nearest-neighbour query return
  the identifiers \<open>ids0\<close>, so that the raw hits are \<open>ids0\<close> paired with their distances (the
  distances the store returned, one per identifier). Then the results of \<open>search_cards\<close>
  correspond one to one, in order, to a subsequence \<open>es\<close> of the raw hits: each result
  carries the distance of its hit and the metadata of its hit's card; the cards of \<open>es\<close>
  are pairwise different; each hit of \<open>es\<close> is the first raw hit of its card, so later
  hits of the card are discarded; and when the distances are ascending, so are the
  results. In the example of the claim, hits \<open>X_2\<close> at 0.1, \<open>X_0\<close> at 0.3 and \<open>Y_1\<close> at 0.2
  with two results desired give X at 0.1, then Y at 0.2.
\<close>

theorem search_cards_one_result_per_card_in_distance_order:
  "(qr_ids (knn e coll (process_query q) (min (n * 4) (int (length coll)))) = ids0 # rest
      \<and> hit_distances ids0
           (qr_distances (knn e coll (process_query q) (min (n * 4) (int (length coll))))) = hds
      \<longrightarrow>
    (\<exists>es. list_all2 (result_of_hit e coll) (snd (search_cards e coll q n)) es
       \<and> subseq es (zip ids0 hds)
       \<and> distinct (map hit_card es)
       \<and> (\<forall>h\<in>set es. find (\<lambda>h'. hit_card h' = hit_card h) (zip ids0 hds) = Some h)
       \<and> (sorted hds \<longrightarrow> sorted (map sr_distance (snd (search_cards e coll q n))))))
   \<and> (length ds = length ids0 \<longrightarrow> hit_distances ids0 (ds # rest') = ds)
   \<and> snd (search_cards (fixed_env [''X_2'', ''X_0'', ''Y_1''] [0.1, 0.3, 0.2]) xy_coll q' 2) =
       [\<lparr>sr_metadata = meta_x, sr_distance = 0.1, sr_extracted_info = JObj []\<rparr>,
        \<lparr>sr_metadata = meta_y, sr_distance = 0.2, sr_extracted_info = JObj []\<rparr>]"
proof (intro conjI impI)
  let ?qr = "knn e coll (process_query q) (min (n * 4) (int (length coll)))"
  let ?rs = "snd (search_cards e coll q n)"
  assume a: "qr_ids ?qr = ids0 # rest \<and> hit_distances ids0 (qr_distances ?qr) = hds"
  then have hits: "raw_hits ids0 (qr_distances ?qr) = zip ids0 hds"
    by (simp add: raw_hits_zip)
  have "length (hit_distances ids0 (qr_distances ?qr)) = length ids0"
    by (cases "qr_distances ?qr") (auto simp: hit_distances_def)
  with a have ds: "map snd (zip ids0 hds) = hds" by auto
  from search_cards_results[of e coll q n]
  have "?rs = [] \<or> ?rs = results_or_empty (snd (aggregate e coll n {} [] (zip ids0 hds)))"
    using a hits by auto
  then show "\<exists>es. list_all2 (result_of_hit e coll) ?rs es
       \<and> subseq es (zip ids0 hds)
       \<and> distinct (map hit_card es)
       \<and> (\<forall>h\<in>set es. find (\<lambda>h'. hit_card h' = hit_card h) (zip ids0 hds) = Some h)
       \<and> (sorted hds \<longrightarrow> sorted (map sr_distance ?rs))"
  proof
    assume "?rs = []"
    then show ?thesis by (intro exI[of _ "[]"]) simp
  next
    assume "?rs = results_or_empty (snd (aggregate e coll n {} [] (zip ids0 hds)))"
    with aggregate_results[of e coll n "zip ids0 hds"] ds show ?thesis by simp
  qed
next
  assume "length ds = length ids0"
  then show "hit_distances ids0 (ds # rest') = ds" by (rule hit_distances_full)
next
  show "snd (search_cards (fixed_env [''X_2'', ''X_0'', ''Y_1''] [0.1, 0.3, 0.2]) xy_coll q' 2) =
       [\<lparr>sr_metadata = meta_x, sr_distance = 0.1, sr_extracted_info = JObj []\<rparr>,
        \<lparr>sr_metadata = meta_y, sr_distance = 0.2, sr_extracted_info = JObj []\<rparr>]"
    by (simp add: search_cards_def search_body_def results_or_empty_def raw_hits_def
          distance_at_def store_defs example_defs fixed_env_def)
qed

theorem search_cards_one_result_per_card_in_distance_order_witness:
  "qr_ids (knn (fixed_env [''X_2'', ''Y_1'', ''X_0''] [0.1, 0.2, 0.3]) xy_coll (process_query ''q'')
             (min (5 * 4) (int (length xy_coll)))) = [''X_2'', ''Y_1'', ''X_0''] # []
   \<and> hit_distances [''X_2'', ''Y_1'', ''X_0'']
        (qr_distances (knn (fixed_env [''X_2'', ''Y_1'', ''X_0''] [0.1, 0.2, 0.3]) xy_coll
             (process_query ''q'') (min (5 * 4) (int (length xy_coll))))) = [0.1, 0.2, 0.3]
   \<and> length [0.1, 0.2, 0.3 :: real] = length [''X_2'', ''Y_1'', ''X_0'']
   \<and> hit_distances [''X_2'', ''Y_1'', ''X_0''] ([0.1, 0.2, 0.3] # []) = [0.1, 0.2, 0.3]
   \<and> sorted [0.1, 0.2, 0.3 :: real]
   \<and> map sr_distance
        (snd (search_cards (fixed_env [''X_2'', ''Y_1'', ''X_0''] [0.1, 0.2, 0.3]) xy_coll ''q'' 5)) =
        [0.1, 0.2]
   \<and> sorted (map sr_distance
        (snd (search_cards (fixed_env [''X_2'', ''Y_1'', ''X_0''] [0.1, 0.2, 0.3]) xy_coll ''q'' 5)))"
proof -
  let ?e = "fixed_env [''X_2'', ''Y_1'', ''X_0''] [0.1, 0.2, 0.3]"
  have i: "qr_ids (knn ?e xy_coll (process_query ''q'') (min (5 * 4) (int (length xy_coll)))) =
             [''X_2'', ''Y_1'', ''X_0''] # []"
    and d: "hit_distances [''X_2'', ''Y_1'', ''X_0'']
              (qr_distances (knn ?e xy_coll (process_query ''q'')
                 (min (5 * 4) (int (length xy_coll))))) = [0.1, 0.2, 0.3]"
    by (simp_all add: fixed_env_def toy_env_def hit_distances_def)
  have l: "length [0.1, 0.2, 0.3 :: real] = length [''X_2'', ''Y_1'', ''X_0'']" by simp
  have s: "sorted [0.1, 0.2, 0.3 :: real]" by simp
  have v: "map sr_distance (snd (search_cards ?e xy_coll ''q'' 5)) = [0.1, 0.2]"
    by (simp add: search_cards_def search_body_def results_or_empty_def raw_hits_def
          distance_at_def store_defs example_defs fixed_env_def)
  note t = search_cards_one_result_per_card_in_distance_order
         [of ?e xy_coll "''q''" 5 "[''X_2'', ''Y_1'', ''X_0'']" "[]" "[0.1, 0.2, 0.3]"
             "[0.1, 0.2, 0.3]" "[]"]
  from t i d s
  have r: "sorted (map sr_distance (snd (search_cards ?e xy_coll ''q'' 5)))"
    by blast
  from t l have f: "hit_distances [''X_2'', ''Y_1'', ''X_0''] ([0.1, 0.2, 0.3] # []) = [0.1, 0.2, 0.3]"
    by blast
  from i d l f s v r show ?thesis by blast
qed

text \<open>
  C3. The claim: when one hit's stored \<open>source_json\<close> is malformed, only that card is
  skipped and the other hits are still aggregated. In the code, \<open>get_card_by_id\<close> parses
  the stored text first, outside the loop's \<open>try\<close>, so the \<open>JSONDecodeError\<close> leaves the
  loop and the outer handler returns the empty list. With fragments of X, of the
  malformed B and of Y stored, the search loses X and Y too.
\<close>

theorem search_cards_malformed_card_loses_all_results:
  "snd (get_card_by_id toy_env bad_coll ''B'') = Inl JSONDecodeError
   \<and> snd (search_body toy_env bad_coll q 5) = Inl JSONDecodeError
   \<and> snd (search_cards toy_env bad_coll q 5) = []
   \<and> length (snd (search_cards toy_env [(''X_0'', ''x0'', meta_x), (''Y_0'', ''y0'', meta_y)] q 5)) = 2"
  by (simp add: search_cards_def search_body_def results_or_empty_def raw_hits_def
        distance_at_def store_defs example_defs bad_coll_def meta_bad_def)

text \<open>
  C4. The claim: a failing store call is propagated to the caller as a fault, by
  \<open>add_business_card\<close> and by \<open>search_cards\<close>, and search does not turn it into a normal
  empty result. Against it: with the store failing, \<open>search_cards\<close> returns the empty
  list, the very value it returns for an empty store.
\<close>

theorem search_cards_swallows_store_failure:
  "down down_env CGetAll
   \<and> search_cards down_env xy_coll ''AI researcher'' 3 = ([CGetAll], [])
   \<and> search_cards toy_env [] ''AI researcher'' 3 = ([CGetAll], [])"
  by (simp add: search_cards_def search_body_def results_or_empty_def store_defs example_defs
        down_env_def)

text \<open>
  C4, as amended. When a store call made by \<open>add_business_card\<close> fails, the failure
  reaches the caller as an exception. When a store call made during \<open>search_cards\<close>
  fails, the exception is caught inside \<open>search_cards\<close>, which returns the empty list.
\<close>

theorem store_failure_add_raises_search_returns_empty:
  "((\<exists>c\<in>set (fst (add_business_card e coll r)). down e c) \<longrightarrow>
      snd (add_business_card e coll r) = Inl StoreUnreachable)
   \<and> ((\<exists>c\<in>set (fst (search_cards e coll q n)). down e c) \<longrightarrow>
      snd (search_body e coll q n) = Inl StoreUnreachable \<and> snd (search_cards e coll q n) = [])"
proof (intro conjI impI)
  assume "\<exists>c\<in>set (fst (add_business_card e coll r)). down e c"
  then show "snd (add_business_card e coll r) = Inl StoreUnreachable"
    by (auto simp: add_business_card_def Let_def split: sum.splits if_splits)
next
  assume a: "\<exists>c\<in>set (fst (search_cards e coll q n)). down e c"
  then obtain c where c: "c \<in> set (fst (search_body e coll q n))" "down e c"
    by (auto simp: search_cards_def split: prod.splits)
  show b: "snd (search_body e coll q n) = Inl StoreUnreachable"
  proof (cases "down e CGetAll")
    case True
    then show ?thesis by (simp add: search_body_def)
  next
    case up: False
    let ?q = "CQuery (process_query q) (min (n * 4) (int (length (coll_ids coll))))"
    show ?thesis
    proof (cases "down e ?q")
      case True
      with up c show ?thesis by (auto simp: search_body_def Let_def split: if_splits)
    next
      case False
      with up c show ?thesis
        by (auto simp: search_body_def Let_def split: if_splits list.splits prod.splits
              dest: aggregate_down)
    qed
  qed
  then show "snd (search_cards e coll q n) = []"
    by (cases "search_body e coll q n") (simp add: search_cards_def results_or_empty_def)
qed

theorem store_failure_add_raises_search_returns_empty_witness:
  "CAdd (fragment_ids ''Ada Lovelace-abc123'') \<in> set (fst (add_business_card down_env xy_coll ada_record))
   \<and> down down_env (CAdd (fragment_ids ''Ada Lovelace-abc123''))
   \<and> snd (add_business_card down_env xy_coll ada_record) = Inl StoreUnreachable
   \<and> CGetAll \<in> set (fst (search_cards down_env xy_coll ''q'' 3))
   \<and> down down_env CGetAll
   \<and> snd (search_cards down_env xy_coll ''q'' 3) = []"
proof -
  have a: "CAdd (fragment_ids ''Ada Lovelace-abc123'')
             \<in> set (fst (add_business_card down_env xy_coll ada_record))"
    by (simp add: add_business_card_def process_business_card_def ada_record_def ebind_def
          value_of_def first_value_def website_value_def py_str_def example_defs meta_get_def
          down_env_def)
  have s: "CGetAll \<in> set (fst (search_cards down_env xy_coll ''q'' 3))"
    by (simp add: search_cards_def search_body_def example_defs down_env_def)
  have d: "down down_env (CAdd (fragment_ids ''Ada Lovelace-abc123''))" "down down_env CGetAll"
    by (simp_all add: example_defs down_env_def)
  from a s d store_failure_add_raises_search_returns_empty
               [of down_env xy_coll ada_record "''q''" 3]
  show ?thesis by blast
qed

text \<open>
  C5. The claim: when at least one but fewer than four of a card's fragment
  identifiers resolve, \<open>get_card_by_id\<close> detects it and returns an explicit partial or
  not-found value. Against it: with two of the four fragments of X stored, the code
  returns what it returns for the complete card, and not the empty card.
\<close>

theorem get_card_by_id_partial_card_looks_complete:
  "length (coll_get partial_coll (fragment_ids ''X'')) = 2
   \<and> length (coll_get xy_coll (fragment_ids ''X'')) = 4
   \<and> get_card_by_id toy_env partial_coll ''X'' = get_card_by_id toy_env xy_coll ''X''
   \<and> snd (get_card_by_id toy_env partial_coll ''X'') \<noteq> Inr empty_card"
  by (simp add: store_defs example_defs partial_coll_def empty_card_def)

text \<open>
  C5, as amended. With the store reachable, \<open>get_card_by_id\<close> returns the empty card
  when none of the four fragment identifiers resolves, and only then: when at least one
  resolves, its answer is not the empty card (given that the first resolved fragment
  has some metadata, or that \<open>json.loads\<close> does not read the text \<open>{}\<close> as the string \<open>{}\<close>).
  It is then the metadata of the first resolved fragment with its \<open>source_json\<close>
  deserialized (an exception when that text is malformed), however many of the four
  resolve: two collections whose first resolved fragments carry the same metadata give
  the same answer.
\<close>

theorem get_card_by_id_uses_first_resolved_fragment:
  assumes "\<not> down e (CGet (fragment_ids c))"
  shows "(coll_get coll (fragment_ids c) = [] \<longrightarrow> snd (get_card_by_id e coll c) = Inr empty_card)
    \<and> (\<forall>m ms. coll_get coll (fragment_ids c) = m # ms
           \<and> (m \<noteq> [] \<or> json_loads e ''{}'' \<noteq> Some (JStr ''{}'')) \<longrightarrow>
         snd (get_card_by_id e coll c) \<noteq> Inr empty_card)
    \<and> (\<forall>m ms j. coll_get coll (fragment_ids c) = m # ms
           \<and> json_loads e (meta_get m ''source_json'' ''{}'') = Some j \<longrightarrow>
         snd (get_card_by_id e coll c) =
           Inr \<lparr>cd_metadata = m, cd_original_json = j,
                cd_image_base64 = meta_get m ''image_base64'' []\<rparr>)
    \<and> (\<forall>m ms. coll_get coll (fragment_ids c) = m # ms
           \<and> json_loads e (meta_get m ''source_json'' ''{}'') = None \<longrightarrow>
         snd (get_card_by_id e coll c) = Inl JSONDecodeError)
    \<and> (\<forall>coll' m ms ms'. coll_get coll (fragment_ids c) = m # ms
           \<and> coll_get coll' (fragment_ids c) = m # ms' \<longrightarrow>
         get_card_by_id e coll c = get_card_by_id e coll' c)"
proof -
  have only: "snd (get_card_by_id e coll c) \<noteq> Inr empty_card"
    if a: "coll_get coll (fragment_ids c) = m # ms"
      and b: "m \<noteq> [] \<or> json_loads e ''{}'' \<noteq> Some (JStr ''{}'')" for m ms
  proof (cases "m = []")
    case True
    with b have "json_loads e ''{}'' \<noteq> Some (JStr ''{}'')" by simp
    with a True assms show ?thesis
      by (auto simp: get_card_by_id_def Let_def empty_card_def meta_get_def split: option.splits)
  next
    case False
    with a assms show ?thesis
      by (auto simp: get_card_by_id_def Let_def empty_card_def split: option.splits)
  qed
  have rest: "(coll_get coll (fragment_ids c) = [] \<longrightarrow> snd (get_card_by_id e coll c) = Inr empty_card)
    \<and> (\<forall>m ms j. coll_get coll (fragment_ids c) = m # ms
           \<and> json_loads e (meta_get m ''source_json'' ''{}'') = Some j \<longrightarrow>
         snd (get_card_by_id e coll c) =
           Inr \<lparr>cd_metadata = m, cd_original_json = j,
                cd_image_base64 = meta_get m ''image_base64'' []\<rparr>)
    \<and> (\<forall>m ms. coll_get coll (fragment_ids c) = m # ms
           \<and> json_loads e (meta_get m ''source_json'' ''{}'') = None \<longrightarrow>
         snd (get_card_by_id e coll c) = Inl JSONDecodeError)
    \<and> (\<forall>coll' m ms ms'. coll_get coll (fragment_ids c) = m # ms
           \<and> coll_get coll' (fragment_ids c) = m # ms' \<longrightarrow>
         get_card_by_id e coll c = get_card_by_id e coll' c)"
    using assms by (auto simp: get_card_by_id_def Let_def)
  from only rest show ?thesis by blast
qed

theorem get_card_by_id_uses_first_resolved_fragment_witness:
  "\<not> down toy_env (CGet (fragment_ids ''X''))
   \<and> coll_get [] (fragment_ids ''X'') = []
   \<and> snd (get_card_by_id toy_env [] ''X'') = Inr empty_card
   \<and> coll_get partial_coll (fragment_ids ''X'') = [meta_x, meta_x]
   \<and> meta_x \<noteq> []
   \<and> json_loads toy_env ''{}'' \<noteq> Some (JStr ''{}'')
   \<and> snd (get_card_by_id toy_env partial_coll ''X'') \<noteq> Inr empty_card
   \<and> coll_get xy_coll (fragment_ids ''X'') = [meta_x, meta_x, meta_x, meta_x]
   \<and> get_card_by_id toy_env partial_coll ''X'' = get_card_by_id toy_env xy_coll ''X''"
proof -
  have u: "\<not> down toy_env (CGet (fragment_ids ''X''))" by (simp add: example_defs)
  have e: "coll_get [] (fragment_ids ''X'') = []" by (simp add: coll_get_def)
  have p: "coll_get partial_coll (fragment_ids ''X'') = [meta_x, meta_x]"
    by (simp add: store_defs example_defs partial_coll_def)
  have x: "coll_get xy_coll (fragment_ids ''X'') = [meta_x, meta_x, meta_x, meta_x]"
    by (simp add: store_defs example_defs)
  have n: "meta_x \<noteq> []" "json_loads toy_env ''{}'' \<noteq> Some (JStr ''{}'')"
    by (simp_all add: example_defs)
  from get_card_by_id_uses_first_resolved_fragment[OF u, of "[]"] e
  have 1: "snd (get_card_by_id toy_env [] ''X'') = Inr empty_card" by blast
  from get_card_by_id_uses_first_resolved_fragment[OF u, of partial_coll] p x
  have 2: "get_card_by_id toy_env partial_coll ''X'' = get_card_by_id toy_env xy_coll ''X''"
    by blast
  from get_card_by_id_uses_first_resolved_fragment[OF u, of partial_coll] p n
  have 3: "snd (get_card_by_id toy_env partial_coll ''X'') \<noteq> Inr empty_card"
    by blast
  from u e p x n 1 2 3 show ?thesis by blast
qed

text \<open>
  C6. The claim: for every JSON-serializable Record, after \<open>add_business_card\<close> has
  stored the card, \<open>get_card_by_id\<close> on the returned identity yields a \<open>source_json\<close> that
  deserializes to the original Record. Against it: the same image is extracted twice,
  with the same name and a fuller second extraction. The second \<open>add_business_card\<close>
  returns the identity as usual, but the store keeps the fragments already under the
  four identifiers, and \<open>get_card_by_id\<close> returns the first record.
\<close>

theorem add_then_get_returns_earlier_record_on_readd:
  "snd (add_business_card reextract_env [] (contact_record (JObj []))) =
     Inr (''Ada Lovelace-abc123'', first_stored)
   \<and> snd (add_business_card reextract_env first_stored ada_record) =
     Inr (''Ada Lovelace-abc123'', first_stored)
   \<and> json_loads reextract_env (json_dumps reextract_env ada_record) = Some ada_record
   \<and> snd (get_card_by_id reextract_env first_stored ''Ada Lovelace-abc123'') =
     Inr \<lparr>cd_metadata = first_metadata, cd_original_json = contact_record (JObj []),
          cd_image_base64 = []\<rparr>
   \<and> contact_record (JObj []) \<noteq> ada_record"
  by (simp add: add_business_card_def process_business_card_def ada_record_def
        contact_record_def card_data_of_def ebind_def value_of_def first_value_def
        website_value_def py_str_def reextract_env_def toy_env_def meta_get_def Let_def
        fragment_ids_def coll_add_def coll_get_def get_card_by_id_def first_stored_def
        first_metadata_def)

text \<open>
  C6, as amended. Round trip on fresh identifiers. For every Record that \<open>json.loads\<close>
  reads back from what \<open>json.dumps\<close> writes for it, and every store that holds none of
  the four fragment identifiers of the record's card: once \<open>add_business_card\<close> has
  returned the identity, \<open>get_card_by_id\<close> on that identity, with the store reachable,
  returns metadata whose \<open>source_json\<close> deserializes to the original Record.
\<close>

theorem add_then_get_returns_original_record:
  assumes "snd (add_business_card e coll r) = Inr (cid, coll')"
    and "\<forall>fid\<in>set (fragment_ids cid). fid \<notin> set (coll_ids coll)"
    and "\<not> down e (CGet (fragment_ids cid))"
    and "json_loads e (json_dumps e r) = Some r"
  shows "\<exists>cd. snd (get_card_by_id e coll' cid) = Inr cd
           \<and> json_loads e (meta_get (cd_metadata cd) ''source_json'' ''{}'') = Some r
           \<and> cd_original_json cd = r"
proof -
  from assms(1) obtain p where p: "process_business_card e r = Inr p"
    by (cases "process_business_card e r") (simp_all add: add_business_card_def)
  let ?frags = "zip (fragment_ids cid)
                  (zip (documents p) (replicate (length (documents p)) (metadata p)))"
  from assms(1) p have coll': "coll' = coll_add coll ?frags"
    by (auto simp: add_business_card_def Let_def split: if_splits)
  have len: "length (documents p) = 4" by (rule process_business_card_shape(1)[OF p])
  with len have ids: "map fst ?frags = fragment_ids cid"
    by (simp add: fragment_ids_def)
  from len obtain d0 d1 d2 d3 where "documents p = [d0, d1, d2, d3]"
    by (auto simp: length_Suc_conv numeral_eq_Suc)
  then have "map (\<lambda>f. snd (snd f)) ?frags = [metadata p, metadata p, metadata p, metadata p]"
    by (simp add: fragment_ids_def numeral_eq_Suc)
  with coll_get_after_add[OF ids assms(2)] coll'
  have got: "coll_get coll' (fragment_ids cid) = [metadata p, metadata p, metadata p, metadata p]"
    by simp
  have src: "meta_get (metadata p) ''source_json'' ''{}'' = json_dumps e r"
    by (rule process_business_card_shape(3)[OF p])
  from assms(3,4) got src show ?thesis
    by (simp add: get_card_by_id_def Let_def)
qed

theorem add_then_get_returns_original_record_witness:
  "snd (add_business_card toy_env xy_coll ada_record) =
     Inr (''Ada Lovelace-abc123'', xy_coll @ ada_stored)
   \<and> ''Ada Lovelace-abc123_0'' \<notin> set (coll_ids xy_coll)
   \<and> ''Ada Lovelace-abc123_1'' \<notin> set (coll_ids xy_coll)
   \<and> ''Ada Lovelace-abc123_2'' \<notin> set (coll_ids xy_coll)
   \<and> ''Ada Lovelace-abc123_3'' \<notin> set (coll_ids xy_coll)
   \<and> \<not> down toy_env (CGet (fragment_ids ''Ada Lovelace-abc123''))
   \<and> json_loads toy_env (json_dumps toy_env ada_record) = Some ada_record
   \<and> (\<exists>cd. snd (get_card_by_id toy_env (xy_coll @ ada_stored) ''Ada Lovelace-abc123'') = Inr cd
          \<and> cd_original_json cd = ada_record)"
proof -
  have a: "snd (add_business_card toy_env xy_coll ada_record) =
             Inr (''Ada Lovelace-abc123'', xy_coll @ ada_stored)"
    by (simp add: add_business_card_def process_business_card_def ada_record_def ebind_def
          value_of_def first_value_def website_value_def py_str_def example_defs meta_get_def
          Let_def fragment_ids_def coll_add_def ada_stored_def ada_metadata_def)
  have f: "''Ada Lovelace-abc123_0'' \<notin> set (coll_ids xy_coll)"
          "''Ada Lovelace-abc123_1'' \<notin> set (coll_ids xy_coll)"
          "''Ada Lovelace-abc123_2'' \<notin> set (coll_ids xy_coll)"
          "''Ada Lovelace-abc123_3'' \<notin> set (coll_ids xy_coll)"
    by (simp_all add: coll_ids_def xy_coll_def)
  then have fr: "\<forall>fid\<in>set (fragment_ids ''Ada Lovelace-abc123''). fid \<notin> set (coll_ids xy_coll)"
    by (simp add: fragment_ids_def)
  have u: "\<not> down toy_env (CGet (fragment_ids ''Ada Lovelace-abc123''))"
    by (simp add: example_defs)
  have c: "json_loads toy_env (json_dumps toy_env ada_record) = Some ada_record"
    by (simp add: example_defs ada_record_def)
  from add_then_get_returns_original_record[OF a fr u c] a f u c show ?thesis by blast
qed

text \<open>
  C7. For every query and every desired count \<open>d\<close>, when the store is reachable and
  holds \<open>T > 0\<close> fragments, \<open>search_cards\<close> issues exactly one nearest-neighbour query, for
  the expanded query text and \<open>min (d * 4) T\<close> hits. With \<open>d = 3\<close> and at least 12
  fragments that is 12.
\<close>

theorem search_cards_requests_min_of_four_times_desired_and_total:
  assumes "coll \<noteq> []" and "\<not> down e CGetAll"
  shows "filter is_query (fst (search_cards e coll q d)) =
           [CQuery (process_query q) (min (d * 4) (int (length coll)))]
    \<and> (12 \<le> length coll \<longrightarrow>
         filter is_query (fst (search_cards e coll q 3)) = [CQuery (process_query q) 12])"
proof -
  have main: "filter is_query (fst (search_cards e coll q k)) =
           [CQuery (process_query q) (min (k * 4) (int (length coll)))]" for k
  proof -
    let ?q = "CQuery (process_query q) (min (k * 4) (int (length coll)))"
    have iq: "is_query ?q" "\<not> is_query CGetAll" by (simp_all add: is_query_def)
    show ?thesis
    proof (cases "down e ?q")
      case True
      with assms iq show ?thesis
        by (cases coll) (simp_all add: search_cards_def search_body_def coll_ids_def)
    next
      case False
      with assms iq show ?thesis
        by (cases coll)
           (auto simp: search_cards_def search_body_def coll_ids_def Let_def filter_empty_conv
              split: list.splits prod.splits dest: aggregate_log_gets)
    qed
  qed
  show ?thesis using main[of d] main[of 3] by auto
qed

theorem search_cards_requests_min_of_four_times_desired_and_total_witness:
  "xyz_coll \<noteq> [] \<and> \<not> down toy_env CGetAll \<and> 12 \<le> length xyz_coll
   \<and> filter is_query (fst (search_cards toy_env xyz_coll ''AI researcher'' 3)) =
       [CQuery (process_query ''AI researcher'') 12]
   \<and> filter is_query (fst (search_cards toy_env xy_coll ''AI researcher'' 3)) =
       [CQuery (process_query ''AI researcher'') 8]"
proof -
  have h: "xyz_coll \<noteq> []" "xy_coll \<noteq> []" "\<not> down toy_env CGetAll" "12 \<le> length xyz_coll"
    "length xy_coll = 8"
    by (simp_all add: example_defs xyz_coll_def)
  from search_cards_requests_min_of_four_times_desired_and_total[OF h(1,3), of "''AI researcher''" 3]
       search_cards_requests_min_of_four_times_desired_and_total[OF h(2,3), of "''AI researcher''" 3]
       h
  show ?thesis by simp
qed

text \<open>
  C8. For every query, when the store holds no fragment, \<open>search_cards\<close> returns the
  empty list, as a value and not through an exception when the store is reachable,
  and its only call to the store is the one that lists the identifiers: no
  nearest-neighbour query is issued, hence no embedding is computed.
\<close>

theorem search_cards_empty_store_returns_empty_without_query:
  "search_cards e [] q n = ([CGetAll], [])
   \<and> (\<not> down e CGetAll \<longrightarrow> search_body e [] q n = ([CGetAll], Inr []))"
  by (simp add: search_cards_def search_body_def results_or_empty_def coll_ids_def Let_def)

theorem search_cards_empty_store_returns_empty_without_query_witness:
  "\<not> down toy_env CGetAll
   \<and> search_body toy_env [] ''designer in africa'' 5 = ([CGetAll], Inr [])
   \<and> search_cards toy_env [] ''designer in africa'' 5 = ([CGetAll], [])"
proof -
  have u: "\<not> down toy_env CGetAll" by (simp add: example_defs)
  from search_cards_empty_store_returns_empty_without_query[of toy_env "''designer in africa''" 5] u
  show ?thesis by blast
qed

text \<open>
  C9. The claim: fragment 0 is exactly "{name} is a {job_title} in {industry}, based in
  {primary address}.", and missing pieces give empty segments without raising. The
  code's format string has no separator between the industry and the word "based":
  for a complete record it gives "... in Softwarebased in London.".
\<close>

theorem process_business_card_identity_fragment_lacks_separator:
  "\<exists>p. process_business_card e ada_record = Inr p
      \<and> documents p ! 0 = ''Ada Lovelace is a Engineer in Softwarebased in London.''
      \<and> documents p ! 0 \<noteq> ''Ada Lovelace is a Engineer in Software, based in London.''"
  by (simp add: process_business_card_def ada_record_def ebind_def value_of_def
        first_value_def website_value_def py_str_def)

text \<open>
  C10. For every card identifier \<open>c\<close>, underscores in it or not, and each of the four
  slots, stripping the suffix of the fragment identifier gives back \<open>c\<close>. Hence the
  identifiers that \<open>add_business_card\<close> writes for a card all map back to the identity it
  returns.
\<close>

theorem rsplit_head_recovers_card_identity:
  "map rsplit_head (fragment_ids c) = [c, c, c, c]
   \<and> (snd (add_business_card e coll r) = Inr (cid, coll') \<longrightarrow>
        fst (add_business_card e coll r) = [CAdd (fragment_ids cid)]
        \<and> (\<forall>fid\<in>set (fragment_ids cid). rsplit_head fid = cid))"
proof -
  have m: "map rsplit_head (fragment_ids c) = [c, c, c, c]" for c
    using rsplit_head_slot by (simp add: fragment_ids_def)
  have "\<forall>fid\<in>set (fragment_ids cid). rsplit_head fid = cid"
    using m[of cid] by (simp add: fragment_ids_def)
  then show ?thesis
    using m[of c]
    by (auto simp: add_business_card_def Let_def split: sum.splits if_splits)
qed

theorem rsplit_head_recovers_card_identity_witness:
  "map rsplit_head (fragment_ids ''Ada_Lovelace-abc_123'') =
     [''Ada_Lovelace-abc_123'', ''Ada_Lovelace-abc_123'', ''Ada_Lovelace-abc_123'',
      ''Ada_Lovelace-abc_123'']
   \<and> snd (add_business_card toy_env [] ada_record) = Inr (''Ada Lovelace-abc123'', ada_stored)
   \<and> fst (add_business_card toy_env [] ada_record) =
       [CAdd (fragment_ids ''Ada Lovelace-abc123'')]
   \<and> ''Ada Lovelace-abc123_2'' \<in> set (fragment_ids ''Ada Lovelace-abc123'')
   \<and> rsplit_head ''Ada Lovelace-abc123_2'' = ''Ada Lovelace-abc123''"
proof -
  have a: "snd (add_business_card toy_env [] ada_record) = Inr (''Ada Lovelace-abc123'', ada_stored)"
    by (simp add: add_business_card_def process_business_card_def ada_record_def ebind_def
          value_of_def first_value_def website_value_def py_str_def example_defs meta_get_def
          Let_def fragment_ids_def coll_add_def ada_stored_def ada_metadata_def)
  have i: "''Ada Lovelace-abc123_2'' \<in> set (fragment_ids ''Ada Lovelace-abc123'')"
    by (simp add: fragment_ids_def)
  from rsplit_head_recovers_card_identity
         [of "''Ada_Lovelace-abc_123''" toy_env "[]" ada_record "''Ada Lovelace-abc123''" ada_stored]
       a i
  show ?thesis by blast
qed


end
